theory Spec2Isabelle
  imports Complex_Main "HOL-Library.AList"
begin

section \<open>The stock dashboard: rolling statistics over a data frame\<close>

text \<open>
  The program \<^verbatim>\<open>stock_dashboard.py\<close> loads a table of daily prices, adds two simple
  moving averages and a pair of Bollinger bands to it, and draws charts.

  Conventions of the embedding.
  \<^item> A float column is a list of optional reals: \<open>None\<close> stands for NaN (and NaT in a
    date column, whose time stamps are numbers). Arithmetic is that of the reals:
    rounding of 64-bit floats is not modelled.
  \<^item> A data frame is an association list from column names to columns, in column order.
    Assigning to a column replaces it in place when the name exists and appends it
    otherwise. The row index after \<^verbatim>\<open>reset_index\<close> is the positions \<open>0, 1, ...\<close>, so
    columns derived from one frame align position by position.
  \<^item> Data frames are mutable objects: a store maps references to frames, and a function
    that assigns to a column of its argument returns the updated store.
  \<^item> An exception is a value of type \<open>error\<close>.
\<close>

subsection \<open>Columns, frames and exceptions\<close>

type_synonym series = "real option list"

type_synonym frame = "(string \<times> series) list"

type_synonym ref = nat

type_synonym store = "ref \<Rightarrow> frame"

datatype error = KeyError string | ValueError string | Exception string

definition bind_err :: "error + 'a \<Rightarrow> ('a \<Rightarrow> error + 'b) \<Rightarrow> error + 'b" where
  "bind_err m f = (case m of Inl e \<Rightarrow> Inl e | Inr x \<Rightarrow> f x)"

text \<open>\<^verbatim>\<open>data[c]\<close>: the column of that name, or \<^verbatim>\<open>KeyError\<close>.\<close>

definition getitem :: "frame \<Rightarrow> string \<Rightarrow> error + series" where
  "getitem df c = (case map_of df c of None \<Rightarrow> Inl (KeyError c) | Some s \<Rightarrow> Inr s)"

text \<open>\<^verbatim>\<open>data[c] = s\<close> for a series \<open>s\<close> on the frame's own index.\<close>

definition setitem :: "frame \<Rightarrow> string \<Rightarrow> series \<Rightarrow> frame" where
  "setitem df c s = AList.update c s df"

subsection \<open>Rolling windows, as the data-frame library computes them\<close>

text \<open>
  \<^verbatim>\<open>s.rolling(window=w)\<close> with an integer \<open>w\<close> rejects a negative window and otherwise
  yields a rolling object with \<^verbatim>\<open>min_periods\<close> equal to the window. At position \<open>i\<close> the
  window covers the positions \<open>i - w + 1 .. i\<close> that exist.
\<close>

datatype rolling_obj = Rolling series nat

definition rolling :: "series \<Rightarrow> int \<Rightarrow> error + rolling_obj" where
  "rolling s w =
     (if w < 0 then Inl (ValueError ''window must be an integer 0 or greater'')
      else Inr (Rolling s (nat w)))"

definition window_at :: "nat \<Rightarrow> nat \<Rightarrow> 'a list \<Rightarrow> 'a list" where
  "window_at w i xs = drop (Suc i - w) (take (Suc i) xs)"

text \<open>The observations of a window: its values that are not NaN.\<close>

primrec observed :: "series \<Rightarrow> real list" where
  "observed [] = []"
| "observed (x # xs) = (case x of None \<Rightarrow> observed xs | Some v \<Rightarrow> v # observed xs)"

text \<open>
  The mean of a window is defined when it has at least \<^verbatim>\<open>min_periods\<close> observations
  and at least one.
\<close>

definition calc_mean :: "nat \<Rightarrow> real list \<Rightarrow> real option" where
  "calc_mean minp vs =
     (if minp \<le> length vs \<and> 0 < length vs
      then Some (sum_list vs / real (length vs)) else None)"

text \<open>Sum of squared differences from the mean.\<close>

definition ssqdm :: "real list \<Rightarrow> real" where
  "ssqdm vs = (\<Sum>x\<leftarrow>vs. (x - sum_list vs / real (length vs))\<^sup>2)"

text \<open>
  The variance with \<open>ddof\<close> delta degrees of freedom is defined when the window has
  at least \<^verbatim>\<open>min_periods\<close> observations (at least one) and more than \<open>ddof\<close>.
\<close>

definition calc_var :: "nat \<Rightarrow> nat \<Rightarrow> real list \<Rightarrow> real option" where
  "calc_var minp ddof vs =
     (if max minp 1 \<le> length vs \<and> ddof < length vs
      then Some (ssqdm vs / real (length vs - ddof)) else None)"

text \<open>\<^verbatim>\<open>.mean()\<close> and \<^verbatim>\<open>.std()\<close> (default \<open>ddof = 1\<close>) of a rolling object.\<close>

fun mean :: "rolling_obj \<Rightarrow> series" where
  "mean (Rolling s w) =
     map (\<lambda>i. calc_mean w (observed (window_at w i s))) [0..<length s]"

fun std :: "rolling_obj \<Rightarrow> series" where
  "std (Rolling s w) =
     map (\<lambda>i. map_option sqrt (calc_var w 1 (observed (window_at w i s)))) [0..<length s]"

text \<open>
  Arithmetic on series over the same index; NaN propagates. Sums, differences and
  products are those of the reals. In 64-bit floats a small addend can vanish in a large
  sum, so two bands that differ here may coincide in the program. The statement on the
  order of the bands therefore asserts that they are equal only in cases where this also
  holds after rounding, and draws no conclusion from their being equal.
\<close>

definition series_mul :: "series \<Rightarrow> real \<Rightarrow> series" where
  "series_mul s k = map (map_option (\<lambda>x. x * k)) s"

fun cell_add :: "real option \<Rightarrow> real option \<Rightarrow> real option" where
  "cell_add (Some x) (Some y) = Some (x + y)"
| "cell_add _ _ = None"

fun cell_sub :: "real option \<Rightarrow> real option \<Rightarrow> real option" where
  "cell_sub (Some x) (Some y) = Some (x - y)"
| "cell_sub _ _ = None"

definition series_add :: "series \<Rightarrow> series \<Rightarrow> series" where
  "series_add a b = map2 cell_add a b"

definition series_sub :: "series \<Rightarrow> series \<Rightarrow> series" where
  "series_sub a b = map2 cell_sub a b"

subsection \<open>Formatting an integer, as \<^verbatim>\<open>str\<close> does\<close>

definition digit_char :: "nat \<Rightarrow> char" where
  "digit_char d = char_of (48 + d)"

fun str_nat :: "nat \<Rightarrow> string" where
  "str_nat n = (if n < 10 then [digit_char n] else str_nat (n div 10) @ [digit_char (n mod 10)])"

declare str_nat.simps [simp del]

definition str_int :: "int \<Rightarrow> string" where
  "str_int i = (if i < 0 then CHR ''-'' # str_nat (nat (- i)) else str_nat (nat i))"

text \<open>The column name \<^verbatim>\<open>f'SMA_{window}'\<close>.\<close>

definition sma_name :: "int \<Rightarrow> string" where
  "sma_name w = ''SMA_'' @ str_int w"

subsection \<open>The analysis functions\<close>

text \<open>\<^verbatim>\<open>data['Close'].rolling(window=w).mean()\<close> and \<^verbatim>\<open>....std()\<close>.\<close>

definition close_rolling_mean :: "frame \<Rightarrow> int \<Rightarrow> error + series" where
  "close_rolling_mean df w =
     bind_err (getitem df ''Close'') (\<lambda>c. bind_err (rolling c w) (\<lambda>r. Inr (mean r)))"

definition close_rolling_std :: "frame \<Rightarrow> int \<Rightarrow> error + series" where
  "close_rolling_std df w =
     bind_err (getitem df ''Close'') (\<lambda>c. bind_err (rolling c w) (\<lambda>r. Inr (std r)))"

text \<open>
  \<^verbatim>\<open>calculate_moving_averages(data, short_window, long_window)\<close>: two assignments to
  columns of the frame that \<open>data\<close> refers to, then \<open>data\<close> itself is returned. An
  exception in the second statement leaves the first assignment in the store.
\<close>

definition calculate_moving_averages ::
  "ref \<Rightarrow> int \<Rightarrow> int \<Rightarrow> store \<Rightarrow> (error + ref) \<times> store" where
  "calculate_moving_averages data short_window long_window \<sigma> =
     (case close_rolling_mean (\<sigma> data) short_window of
        Inl e \<Rightarrow> (Inl e, \<sigma>)
      | Inr m1 \<Rightarrow>
          let \<sigma>1 = \<sigma>(data := setitem (\<sigma> data) (sma_name short_window) m1) in
          (case close_rolling_mean (\<sigma>1 data) long_window of
             Inl e \<Rightarrow> (Inl e, \<sigma>1)
           | Inr m2 \<Rightarrow>
               (Inr data, \<sigma>1(data := setitem (\<sigma>1 data) (sma_name long_window) m2))))"

text \<open>
  \<^verbatim>\<open>calculate_bollinger_bands(data, window, num_std_dev)\<close>: the rolling mean and the
  rolling standard deviation are computed first, then the two bands are assigned.
\<close>

definition calculate_bollinger_bands ::
  "ref \<Rightarrow> int \<Rightarrow> real \<Rightarrow> store \<Rightarrow> (error + ref) \<times> store" where
  "calculate_bollinger_bands data window num_std_dev \<sigma> =
     (case close_rolling_mean (\<sigma> data) window of
        Inl e \<Rightarrow> (Inl e, \<sigma>)
      | Inr rolling_mean \<Rightarrow>
          (case close_rolling_std (\<sigma> data) window of
             Inl e \<Rightarrow> (Inl e, \<sigma>)
           | Inr rolling_std \<Rightarrow>
               let \<sigma>1 = \<sigma>(data := setitem (\<sigma> data) ''Bollinger_High''
                            (series_add rolling_mean (series_mul rolling_std num_std_dev)));
                   \<sigma>2 = \<sigma>1(data := setitem (\<sigma>1 data) ''Bollinger_Low''
                            (series_sub rolling_mean (series_mul rolling_std num_std_dev)))
               in (Inr data, \<sigma>2)))"

text \<open>A store in which reference \<open>0\<close> holds the given frame.\<close>

definition store_of :: "frame \<Rightarrow> store" where
  "store_of df = (\<lambda>r. if r = 0 then df else [])"

subsection \<open>Loading the data\<close>

text \<open>
  The market data provider (\<^verbatim>\<open>yf.download\<close>) is outside the program: it is a
  parameter that, for a ticker and two dates, either raises or returns a table with a
  (possibly named) date index and columns.
\<close>

record table =
  index_name :: "string option"
  index_values :: series
  table_columns :: frame

datatype download = Raises error | Returns table

type_synonym provider = "string \<Rightarrow> int \<Rightarrow> int \<Rightarrow> download"

text \<open>\<^verbatim>\<open>data.empty\<close>: some axis has length zero.\<close>

definition empty_table :: "table \<Rightarrow> bool" where
  "empty_table t = (index_values t = [] \<or> table_columns t = [])"

text \<open>
  \<^verbatim>\<open>data.reset_index(inplace=True)\<close>: the index becomes the first column, under its
  name (or a default one); a column of that name must not exist yet.
\<close>

definition reset_index :: "table \<Rightarrow> error + frame" where
  "reset_index t =
     (let name = (case index_name t of
                    Some n \<Rightarrow> n
                  | None \<Rightarrow> if ''index'' \<in> set (map fst (table_columns t))
                            then ''level_0'' else ''index'')
      in if name \<in> set (map fst (table_columns t))
         then Inl (ValueError (''cannot insert '' @ name @ '', already exists''))
         else Inr ((name, index_values t) # table_columns t))"

text \<open>\<^verbatim>\<open>str(e)\<close> of an exception.\<close>

fun str_error :: "error \<Rightarrow> string" where
  "str_error (KeyError k) = [CHR 0x27] @ k @ [CHR 0x27]"
| "str_error (ValueError m) = m"
| "str_error (Exception m) = m"

text \<open>
  What a run shows and calls, in order: the Streamlit elements it emits, and its calls
  of the two analysis functions. Layout and colours of the charts are left out.
\<close>

datatype scatter = Scatter series series string

datatype event =
    StError string
  | StWarning string
  | StHeader string
  | StSubheader string
  | StPlotlyChart "scatter list"
  | StCheckbox string
  | StDataframe frame
  | Call string

text \<open>
  \<^verbatim>\<open>load_data(ticker, start, end)\<close>. The result is \<open>None\<close> for an empty table and
  for any exception, which is reported with \<^verbatim>\<open>st.error\<close>. The cache decorator only
  saves calls of the provider.
\<close>

definition load_data :: "provider \<Rightarrow> string \<Rightarrow> int \<Rightarrow> int \<Rightarrow> frame option \<times> event list" where
  "load_data yf_download ticker start end_date =
     (case yf_download ticker start end_date of
        Raises e \<Rightarrow>
          (None, [StError (''Error loading data for '' @ ticker @ '': '' @ str_error e)])
      | Returns data \<Rightarrow>
          if empty_table data then (None, [])
          else (case reset_index data of
                  Inl e \<Rightarrow>
                    (None, [StError (''Error loading data for '' @ ticker @ '': '' @ str_error e)])
                | Inr df \<Rightarrow> (Some df, [])))"

subsection \<open>The main application logic\<close>

text \<open>\<^verbatim>\<open>pd.to_datetime\<close> of a column of time stamps.\<close>

definition to_datetime :: "series \<Rightarrow> series" where
  "to_datetime s = s"

text \<open>\<^verbatim>\<open>go.Scatter(x=data[xc], y=data[yc], name=name)\<close>.\<close>

definition go_scatter :: "frame \<Rightarrow> string \<Rightarrow> string \<Rightarrow> string \<Rightarrow> error + scatter" where
  "go_scatter data xc yc name =
     bind_err (getitem data xc) (\<lambda>x. bind_err (getitem data yc) (\<lambda>y. Inr (Scatter x y name)))"

definition fig_price :: "frame \<Rightarrow> error + scatter list" where
  "fig_price data =
     bind_err (go_scatter data ''Date'' ''Close'' ''Close Price'') (\<lambda>t1.
     bind_err (go_scatter data ''Date'' ''SMA_20'' ''SMA 20'') (\<lambda>t2.
     bind_err (go_scatter data ''Date'' ''SMA_50'' ''SMA 50'') (\<lambda>t3.
     Inr [t1, t2, t3])))"

definition fig_bb :: "frame \<Rightarrow> error + scatter list" where
  "fig_bb data =
     bind_err (go_scatter data ''Date'' ''Close'' ''Close Price'') (\<lambda>t1.
     bind_err (go_scatter data ''Date'' ''Bollinger_High'' ''Upper Band'') (\<lambda>t2.
     bind_err (go_scatter data ''Date'' ''Bollinger_Low'' ''Lower Band'') (\<lambda>t3.
     Inr [t1, t2, t3])))"

text \<open>\<^verbatim>\<open>data.tail(n)\<close>: the last \<open>n\<close> rows.\<close>

definition tail :: "nat \<Rightarrow> frame \<Rightarrow> frame" where
  "tail n data = map (\<lambda>(c, s). (c, drop (length s - n) s)) data"

text \<open>
  The branch for loaded data, from the conversion of the date column on. The result is
  the events of the run and the exception that ended it, if one did.
\<close>

definition analyse :: "string \<Rightarrow> bool \<Rightarrow> frame \<Rightarrow> event list \<times> error option" where
  "analyse ticker_symbol show_raw df =
     (case getitem df ''Date'' of
        Inl e \<Rightarrow> ([], Some e)
      | Inr dates \<Rightarrow>
          (case calculate_moving_averages 0 20 50
                  (store_of (setitem df ''Date'' (to_datetime dates))) of
             (Inl e, \<sigma>1) \<Rightarrow> ([Call ''calculate_moving_averages''], Some e)
           | (Inr data1, \<sigma>1) \<Rightarrow>
               (case calculate_bollinger_bands data1 20 2 \<sigma>1 of
                  (Inl e, \<sigma>2) \<Rightarrow>
                    ([Call ''calculate_moving_averages'', Call ''calculate_bollinger_bands''],
                     Some e)
                | (Inr data2, \<sigma>2) \<Rightarrow>
                    (let calls = [Call ''calculate_moving_averages'',
                                  Call ''calculate_bollinger_bands''];
                         head1 = [StHeader (''Analysis for '' @ ticker_symbol),
                                  StSubheader ''Closing Price & Moving Averages'']
                     in case fig_price (\<sigma>2 data2) of
                          Inl e \<Rightarrow> (calls @ head1, Some e)
                        | Inr f1 \<Rightarrow>
                            (case fig_bb (\<sigma>2 data2) of
                               Inl e \<Rightarrow>
                                 (calls @ head1 @ [StPlotlyChart f1,
                                    StSubheader ''Bollinger Bands''], Some e)
                             | Inr f2 \<Rightarrow>
                                 (calls @ head1 @ [StPlotlyChart f1,
                                    StSubheader ''Bollinger Bands'', StPlotlyChart f2,
                                    StCheckbox ''Show Raw Data Table'']
                                  @ (if show_raw
                                     then [StSubheader ''Historical Data'',
                                           StDataframe (tail 100 (\<sigma>2 data2))]
                                     else []), None))))))"

text \<open>
  The script from \<^verbatim>\<open>data = load_data(...)\<close> on; the ticker, the dates and the state
  of the check box are the user's input.
\<close>

definition main :: "provider \<Rightarrow> string \<Rightarrow> int \<Rightarrow> int \<Rightarrow> bool \<Rightarrow> event list \<times> error option" where
  "main yf_download ticker_symbol start_date end_date show_raw =
     (case load_data yf_download ticker_symbol start_date end_date of
        (Some data, evs) \<Rightarrow>
          (case analyse ticker_symbol show_raw data of (evs', r) \<Rightarrow> (evs @ evs', r))
      | (None, evs) \<Rightarrow>
          (evs @ [StWarning ''Could not load data. Please check the ticker symbol and date range.''],
           None))"

subsection \<open>The specification's formulas\<close>

text \<open>
  The arithmetic mean of the prices at positions \<open>i - w + 1 .. i\<close>, and their sample
  standard deviation (dividing by \<open>w - 1\<close>), as the specification words them.
\<close>

definition trailing_mean :: "real list \<Rightarrow> nat \<Rightarrow> nat \<Rightarrow> real" where
  "trailing_mean ps w i = (\<Sum>j = Suc i - w..i. ps ! j) / real w"

definition trailing_sample_std :: "real list \<Rightarrow> nat \<Rightarrow> nat \<Rightarrow> real" where
  "trailing_sample_std ps w i =
     sqrt ((\<Sum>j = Suc i - w..i. (ps ! j - trailing_mean ps w i)\<^sup>2) / real (w - 1))"

text \<open>Reading a decimal numeral back, to tell column names apart.\<close>

definition digit_val :: "char \<Rightarrow> nat" where
  "digit_val c = of_char c - 48"

definition val_digits :: "string \<Rightarrow> nat" where
  "val_digits cs = foldl (\<lambda>a c. 10 * a + digit_val c) 0 cs"

section \<open>Properties of the library layer\<close>

subsection \<open>Windows\<close>

lemma observed_map_Some: "observed (map Some ps) = ps"
  by (induction ps) simp_all

lemma window_at_map: "window_at w i (map f xs) = map f (window_at w i xs)"
  by (simp add: window_at_def take_map drop_map)

lemma length_window_at: "i < length xs \<Longrightarrow> length (window_at w i xs) = min w (Suc i)"
  by (auto simp add: window_at_def)

lemma window_at_one: "i < length xs \<Longrightarrow> window_at (Suc 0) i xs = [xs ! i]"
  by (simp add: window_at_def take_Suc_conv_app_nth)

text \<open>Summing over a window is summing over the positions \<open>i - w + 1 .. i\<close>.\<close>

lemma window_at_sum:
  assumes "i < length xs"
  shows "(\<Sum>x\<leftarrow>window_at w i xs. f x) = (\<Sum>j = Suc i - w..i. f (xs ! j))"
proof -
  let ?a = "Suc i - w"
  have len: "length (window_at w i xs) = Suc i - ?a"
    using assms by (auto simp add: window_at_def)
  have "(\<Sum>x\<leftarrow>window_at w i xs. f x) = (\<Sum>k = 0..<Suc i - ?a. f (window_at w i xs ! k))"
    using len by (simp add: sum_list_sum_nth atLeast0LessThan)
  also have "\<dots> = (\<Sum>k = 0..<Suc i - ?a. f (xs ! (?a + k)))"
    using assms by (intro sum.cong) (auto simp add: window_at_def)
  also have "\<dots> = (\<Sum>j = ?a..<Suc i. f (xs ! j))"
    using sum.shift_bounds_nat_ivl [of "\<lambda>j. f (xs ! j)" 0 ?a "Suc i - ?a"]
    by (simp add: add.commute)
  finally show ?thesis
    by (simp add: atLeastLessThanSuc_atLeastAtMost)
qed

subsection \<open>Rolling mean and standard deviation of a series without NaN\<close>

lemma length_mean: "length (mean (Rolling s w)) = length s"
  by simp

lemma length_std: "length (std (Rolling s w)) = length s"
  by simp

lemma nth_mean:
  assumes "i < length ps"
  shows "mean (Rolling (map Some ps) w) ! i =
           (if 1 \<le> w \<and> w \<le> Suc i then Some ((\<Sum>j = Suc i - w..i. ps ! j) / real w) else None)"
proof -
  have "mean (Rolling (map Some ps) w) ! i = calc_mean w (window_at w i ps)"
    using assms by (simp add: window_at_map observed_map_Some)
  also have "\<dots> = (if 1 \<le> w \<and> w \<le> Suc i
                    then Some (sum_list (window_at w i ps) / real w) else None)"
    using assms by (auto simp add: calc_mean_def length_window_at min_def)
  finally show ?thesis
    using window_at_sum [OF assms, of "\<lambda>x. x" w] by simp
qed

lemma nth_std:
  assumes "i < length ps"
  shows "std (Rolling (map Some ps) w) ! i =
           (if 2 \<le> w \<and> w \<le> Suc i
            then Some (sqrt ((\<Sum>j = Suc i - w..i.
                        (ps ! j - (\<Sum>j = Suc i - w..i. ps ! j) / real w)\<^sup>2) / real (w - 1)))
            else None)"
proof -
  have "std (Rolling (map Some ps) w) ! i = map_option sqrt (calc_var w 1 (window_at w i ps))"
    using assms by (simp add: window_at_map observed_map_Some)
  also have "\<dots> = (if 2 \<le> w \<and> w \<le> Suc i
                    then Some (sqrt (ssqdm (window_at w i ps) / real (w - 1))) else None)"
    using assms by (auto simp add: calc_var_def length_window_at min_def max_def)
  finally show ?thesis
    using window_at_sum [OF assms, of "\<lambda>x. x" w]
      window_at_sum [OF assms,
        of "\<lambda>x. (x - sum_list (window_at w i ps) / real (length (window_at w i ps)))\<^sup>2" w]
      length_window_at [OF assms, of w]
    by (auto simp add: ssqdm_def min_def)
qed

lemma nth_mean_spec:
  assumes "i < length ps" and "1 \<le> w"
  shows "mean (Rolling (map Some ps) w) ! i =
           (if w - 1 \<le> i then Some (trailing_mean ps w i) else None)"
  using assms by (auto simp add: nth_mean trailing_mean_def simp del: mean.simps)

lemma nth_std_spec:
  assumes "i < length ps"
  shows "std (Rolling (map Some ps) w) ! i =
           (if 2 \<le> w \<and> w - 1 \<le> i then Some (trailing_sample_std ps w i) else None)"
  using assms
  by (auto simp add: nth_std trailing_sample_std_def trailing_mean_def simp del: std.simps)

lemma mean_defined_iff:
  assumes "i < length ps" and "1 \<le> w"
  shows "mean (Rolling (map Some ps) w) ! i \<noteq> None \<longleftrightarrow> w - 1 \<le> i"
  using assms by (auto simp add: nth_mean simp del: mean.simps)

lemma count_defined:
  assumes "length s = n" and "\<forall>i<n. s ! i \<noteq> None \<longleftrightarrow> a \<le> i"
  shows "length (filter (\<lambda>v. v \<noteq> None) s) = n - a"
proof -
  have "{i. i < length s \<and> s ! i \<noteq> None} = {a..<n}"
    using assms by auto
  then show ?thesis
    by (simp add: length_filter_conv_card)
qed

subsection \<open>Windows of one observation\<close>

lemma mean_window_one: "mean (Rolling c (Suc 0)) = c"
  by (rule nth_equalityI) (auto simp add: window_at_one calc_mean_def split: option.splits)

lemma std_window_one: "std (Rolling c (Suc 0)) = replicate (length c) None"
  by (rule nth_equalityI) (auto simp add: window_at_one calc_var_def split: option.splits)

subsection \<open>The standard deviation is not negative\<close>

lemma ssqdm_nonneg: "0 \<le> ssqdm vs"
  by (auto simp add: ssqdm_def intro!: sum_list_nonneg)

lemma std_nonneg:
  assumes "i < length c" and "std (Rolling c w) ! i = Some s"
  shows "0 \<le> s"
  using assms by (auto simp add: calc_var_def ssqdm_nonneg split: if_splits)

subsection \<open>Series arithmetic\<close>

lemma nth_series_add:
  "i < length a \<Longrightarrow> i < length b \<Longrightarrow> series_add a b ! i = cell_add (a ! i) (b ! i)"
  by (simp add: series_add_def)

lemma nth_series_sub:
  "i < length a \<Longrightarrow> i < length b \<Longrightarrow> series_sub a b ! i = cell_sub (a ! i) (b ! i)"
  by (simp add: series_sub_def)

lemma nth_series_mul: "i < length s \<Longrightarrow> series_mul s k ! i = map_option (\<lambda>x. x * k) (s ! i)"
  by (simp add: series_mul_def)

lemma length_series_add: "length (series_add a b) = min (length a) (length b)"
  by (simp add: series_add_def)

lemma length_series_sub: "length (series_sub a b) = min (length a) (length b)"
  by (simp add: series_sub_def)

lemma length_series_mul: "length (series_mul s k) = length s"
  by (simp add: series_mul_def)

lemma series_mul_None: "series_mul (replicate n None) k = replicate n None"
  by (simp add: series_mul_def)

lemma series_add_None: "length m = n \<Longrightarrow> series_add m (replicate n None) = replicate n None"
  by (rule nth_equalityI) (simp_all add: series_add_def)

lemma series_sub_None: "length m = n \<Longrightarrow> series_sub m (replicate n None) = replicate n None"
  by (rule nth_equalityI) (simp_all add: series_sub_def)

lemma nth_upper:
  assumes "i < length c"
  shows "series_add (mean (Rolling c w)) (series_mul (std (Rolling c w)) k) ! i
           = cell_add (mean (Rolling c w) ! i) (map_option (\<lambda>x. x * k) (std (Rolling c w) ! i))"
  using assms
  by (simp add: nth_series_add nth_series_mul length_series_mul length_mean length_std
      del: mean.simps std.simps)

lemma nth_lower:
  assumes "i < length c"
  shows "series_sub (mean (Rolling c w)) (series_mul (std (Rolling c w)) k) ! i
           = cell_sub (mean (Rolling c w) ! i) (map_option (\<lambda>x. x * k) (std (Rolling c w) ! i))"
  using assms
  by (simp add: nth_series_sub nth_series_mul length_series_mul length_mean length_std
      del: mean.simps std.simps)

subsection \<open>Columns of a frame\<close>

lemma map_of_setitem:
  "map_of (setitem df c s) c' = (if c' = c then Some s else map_of df c')"
  by (simp add: setitem_def update_conv')

lemma keys_setitem: "fst ` set (setitem df c s) = insert c (fst ` set df)"
  by (simp add: setitem_def dom_update)

lemma setitem_triv: "map_of df c = Some s \<Longrightarrow> setitem df c s = df"
  by (simp add: setitem_def update_triv)

lemma setitem_last: "setitem (setitem df c s') c s = setitem df c s"
  by (simp add: setitem_def)

lemma getitem_setitem_other: "c' \<noteq> c \<Longrightarrow> getitem (setitem df c s) c' = getitem df c'"
  by (simp add: getitem_def map_of_setitem)

text \<open>Assigning two columns that already hold the assigned values changes nothing.\<close>

lemma setitem_twice_absorb:
  assumes "map_of df b = Some t" and "a = b \<or> map_of df a = Some s"
  shows "setitem (setitem df a s) b t = df"
proof (cases "a = b")
  case True
  then show ?thesis using assms(1) by (simp add: setitem_last setitem_triv)
next
  case False
  with assms(2) have "setitem df a s = df" by (simp add: setitem_triv)
  then show ?thesis using assms(1) by (simp add: setitem_triv)
qed

subsection \<open>Column names\<close>

lemma digit_val_digit_char: "d < 10 \<Longrightarrow> digit_val (digit_char d) = d"
  by (simp add: digit_val_def digit_char_def)

lemma val_digits_str_nat: "val_digits (str_nat n) = n"
proof (induction n rule: str_nat.induct)
  case (1 n)
  show ?case
  proof (cases "n < 10")
    case True
    then show ?thesis
      by (simp add: str_nat.simps [of n] val_digits_def digit_val_digit_char)
  next
    case False
    with 1 have "val_digits (str_nat (n div 10)) = n div 10" by simp
    with False show ?thesis
      by (simp add: str_nat.simps [of n] val_digits_def digit_val_digit_char)
  qed
qed

lemma str_nat_inj: "str_nat m = str_nat n \<Longrightarrow> m = n"
  by (metis val_digits_str_nat)

lemma sma_name_inj: "0 \<le> a \<Longrightarrow> 0 \<le> b \<Longrightarrow> sma_name a = sma_name b \<Longrightarrow> a = b"
  by (auto simp add: sma_name_def str_int_def dest: str_nat_inj)

lemma sma_name_neq_Close [simp]: "sma_name w \<noteq> ''Close''" "''Close'' \<noteq> sma_name w"
  by (simp_all add: sma_name_def)

lemma sma_name_neq_Date: "sma_name w \<noteq> ''Date''" "''Date'' \<noteq> sma_name w"
  by (simp_all add: sma_name_def)

lemma sma_name_1: "sma_name 1 = ''SMA_1''"
  by code_simp

lemma sma_name_3: "sma_name 3 = ''SMA_3''"
  by code_simp

lemma sma_name_20: "sma_name 20 = ''SMA_20''"
  by code_simp

lemma sma_name_50: "sma_name 50 = ''SMA_50''"
  by code_simp

section \<open>Properties of the analysis functions\<close>

subsection \<open>What a successful call does\<close>

lemma close_rolling_mean_eq:
  "map_of df ''Close'' = Some c \<Longrightarrow> close_rolling_mean df (int w) = Inr (mean (Rolling c w))"
  by (simp add: close_rolling_mean_def getitem_def rolling_def bind_err_def)

lemma close_rolling_std_eq:
  "map_of df ''Close'' = Some c \<Longrightarrow> close_rolling_std df (int w) = Inr (std (Rolling c w))"
  by (simp add: close_rolling_std_def getitem_def rolling_def bind_err_def)

lemma close_rolling_mean_setitem:
  "c \<noteq> ''Close'' \<Longrightarrow> close_rolling_mean (setitem df c s) w = close_rolling_mean df w"
  by (simp add: close_rolling_mean_def getitem_setitem_other)

lemma close_rolling_std_setitem:
  "c \<noteq> ''Close'' \<Longrightarrow> close_rolling_std (setitem df c s) w = close_rolling_std df w"
  by (simp add: close_rolling_std_def getitem_setitem_other)

lemma moving_averages_result:
  assumes "map_of (\<sigma> d) ''Close'' = Some c"
  shows "calculate_moving_averages d (int s) (int l) \<sigma> =
           (Inr d, \<sigma>(d := setitem (setitem (\<sigma> d) (sma_name (int s)) (mean (Rolling c s)))
                              (sma_name (int l)) (mean (Rolling c l))))"
proof -
  have "map_of (setitem (\<sigma> d) (sma_name (int s)) (mean (Rolling c s))) ''Close'' = Some c"
    using assms by (simp add: map_of_setitem)
  then show ?thesis
    using assms
    by (simp add: calculate_moving_averages_def close_rolling_mean_eq Let_def)
qed

lemma sma_column:
  assumes "map_of (\<sigma> d) ''Close'' = Some c" and "w = s \<or> w = l"
  shows "map_of (snd (calculate_moving_averages d (int s) (int l) \<sigma>) d) (sma_name (int w))
           = Some (mean (Rolling c w))"
  using assms sma_name_inj [of "int s" "int l"]
  by (auto simp add: moving_averages_result map_of_setitem)

lemma bollinger_result:
  assumes "map_of (\<sigma> d) ''Close'' = Some c"
  shows "calculate_bollinger_bands d (int w) k \<sigma> =
           (Inr d, \<sigma>(d := setitem (setitem (\<sigma> d) ''Bollinger_High''
                                 (series_add (mean (Rolling c w)) (series_mul (std (Rolling c w)) k)))
                              ''Bollinger_Low''
                                 (series_sub (mean (Rolling c w)) (series_mul (std (Rolling c w)) k))))"
  using assms
  by (simp add: calculate_bollinger_bands_def close_rolling_mean_eq close_rolling_std_eq Let_def)

lemma bollinger_columns:
  assumes "map_of (\<sigma> d) ''Close'' = Some c"
  shows "map_of (snd (calculate_bollinger_bands d (int w) k \<sigma>) d) ''Bollinger_High''
           = Some (series_add (mean (Rolling c w)) (series_mul (std (Rolling c w)) k))"
    and "map_of (snd (calculate_bollinger_bands d (int w) k \<sigma>) d) ''Bollinger_Low''
           = Some (series_sub (mean (Rolling c w)) (series_mul (std (Rolling c w)) k))"
  using assms by (simp_all add: bollinger_result map_of_setitem)

subsection \<open>What any call leaves alone\<close>

lemma moving_averages_other_refs:
  "d' \<noteq> d \<Longrightarrow> snd (calculate_moving_averages d s l \<sigma>) d' = \<sigma> d'"
  by (simp add: calculate_moving_averages_def Let_def split: sum.splits)

lemma bollinger_other_refs:
  "d' \<noteq> d \<Longrightarrow> snd (calculate_bollinger_bands d w k \<sigma>) d' = \<sigma> d'"
  by (simp add: calculate_bollinger_bands_def Let_def split: sum.splits)

lemma moving_averages_other_columns:
  "c \<noteq> sma_name s \<Longrightarrow> c \<noteq> sma_name l \<Longrightarrow>
     map_of (snd (calculate_moving_averages d s l \<sigma>) d) c = map_of (\<sigma> d) c"
  by (simp add: calculate_moving_averages_def Let_def map_of_setitem split: sum.splits)

lemma bollinger_other_columns:
  "c \<noteq> ''Bollinger_High'' \<Longrightarrow> c \<noteq> ''Bollinger_Low'' \<Longrightarrow>
     map_of (snd (calculate_bollinger_bands d w k \<sigma>) d) c = map_of (\<sigma> d) c"
  by (simp add: calculate_bollinger_bands_def Let_def map_of_setitem split: sum.splits)

lemma moving_averages_keys:
  "fst ` set (\<sigma> d) \<subseteq> fst ` set (snd (calculate_moving_averages d s l \<sigma>) d)
   \<and> fst ` set (snd (calculate_moving_averages d s l \<sigma>) d)
       \<subseteq> fst ` set (\<sigma> d) \<union> {sma_name s, sma_name l}"
  by (auto simp add: calculate_moving_averages_def Let_def keys_setitem split: sum.splits)

lemma bollinger_keys:
  "fst ` set (\<sigma> d) \<subseteq> fst ` set (snd (calculate_bollinger_bands d w k \<sigma>) d)
   \<and> fst ` set (snd (calculate_bollinger_bands d w k \<sigma>) d)
       \<subseteq> fst ` set (\<sigma> d) \<union> {''Bollinger_High'', ''Bollinger_Low''}"
  by (auto simp add: calculate_bollinger_bands_def Let_def keys_setitem split: sum.splits)

subsection \<open>Calling a function again on its own result\<close>

lemma moving_averages_twice:
  "calculate_moving_averages d s l (snd (calculate_moving_averages d s l \<sigma>))
     = calculate_moving_averages d s l \<sigma>"
proof (cases "close_rolling_mean (\<sigma> d) s")
  case (Inl e)
  then show ?thesis by (simp add: calculate_moving_averages_def)
next
  case m1: (Inr m1)
  let ?F1 = "setitem (\<sigma> d) (sma_name s) m1"
  have c1: "close_rolling_mean ?F1 w = close_rolling_mean (\<sigma> d) w" for w
    by (simp add: close_rolling_mean_setitem)
  show ?thesis
  proof (cases "close_rolling_mean (\<sigma> d) l")
    case (Inl e)
    then show ?thesis
      using m1 by (simp add: calculate_moving_averages_def c1 Let_def setitem_last)
  next
    case m2: (Inr m2)
    let ?F2 = "setitem ?F1 (sma_name l) m2"
    have c2: "close_rolling_mean ?F2 w = close_rolling_mean (\<sigma> d) w" for w
      by (simp add: close_rolling_mean_setitem)
    have first: "calculate_moving_averages d s l \<sigma> = (Inr d, \<sigma>(d := ?F2))"
      using m1 m2 by (simp add: calculate_moving_averages_def c1 Let_def)
    have "map_of ?F2 (sma_name l) = Some m2"
      and "sma_name s = sma_name l \<or> map_of ?F2 (sma_name s) = Some m1"
      by (auto simp add: map_of_setitem)
    then have "setitem (setitem ?F2 (sma_name s) m1) (sma_name l) m2 = ?F2"
      by (rule setitem_twice_absorb)
    then have "calculate_moving_averages d s l (\<sigma>(d := ?F2)) = (Inr d, \<sigma>(d := ?F2))"
      using m1 m2
      by (simp add: calculate_moving_averages_def c2 close_rolling_mean_setitem Let_def)
    with first show ?thesis by simp
  qed
qed

lemma bollinger_twice:
  "calculate_bollinger_bands d w k (snd (calculate_bollinger_bands d w k \<sigma>))
     = calculate_bollinger_bands d w k \<sigma>"
proof (cases "close_rolling_mean (\<sigma> d) w")
  case (Inl e)
  then show ?thesis by (simp add: calculate_bollinger_bands_def)
next
  case m: (Inr m)
  show ?thesis
  proof (cases "close_rolling_std (\<sigma> d) w")
    case (Inl e)
    then show ?thesis using m by (simp add: calculate_bollinger_bands_def)
  next
    case sd: (Inr sd)
    let ?hi = "series_add m (series_mul sd k)"
    let ?lo = "series_sub m (series_mul sd k)"
    let ?F2 = "setitem (setitem (\<sigma> d) ''Bollinger_High'' ?hi) ''Bollinger_Low'' ?lo"
    have c2: "close_rolling_mean ?F2 w = Inr m" "close_rolling_std ?F2 w = Inr sd"
      using m sd by (simp_all add: close_rolling_mean_setitem close_rolling_std_setitem)
    have first: "calculate_bollinger_bands d w k \<sigma> = (Inr d, \<sigma>(d := ?F2))"
      using m sd by (simp add: calculate_bollinger_bands_def Let_def)
    have "map_of ?F2 ''Bollinger_Low'' = Some ?lo"
      and "''Bollinger_High'' = ''Bollinger_Low'' \<or> map_of ?F2 ''Bollinger_High'' = Some ?hi"
      by (simp_all add: map_of_setitem)
    then have "setitem (setitem ?F2 ''Bollinger_High'' ?hi) ''Bollinger_Low'' ?lo = ?F2"
      by (rule setitem_twice_absorb)
    then have "calculate_bollinger_bands d w k (\<sigma>(d := ?F2)) = (Inr d, \<sigma>(d := ?F2))"
      using c2 by (simp add: calculate_bollinger_bands_def Let_def)
    with first show ?thesis by simp
  qed
qed

subsection \<open>Sample runs\<close>

lemma mean_eval_scenario:
  "mean (Rolling [Some 10, Some 11, Some 12, Some 13, Some 14] 3)
     = [None, None, Some 11, Some 12, Some 13]"
  by (simp add: calc_mean_def window_at_def upt_rec)

lemma mean_eval_13: "mean (Rolling [Some 1, Some 3] 2) = [None, Some 2]"
  by (simp add: calc_mean_def window_at_def upt_rec)

lemma std_eval_13: "std (Rolling [Some 1, Some 3] 2) = [None, Some (sqrt 2)]"
  by (simp add: calc_var_def ssqdm_def window_at_def upt_rec)

lemma mean_eval_5: "mean (Rolling [Some 5, Some 5, Some 5, Some 5] 2) = [None, Some 5, Some 5, Some 5]"
  by (simp add: calc_mean_def window_at_def upt_rec)

lemma std_eval_5: "std (Rolling [Some 5, Some 5, Some 5, Some 5] 2) = [None, Some 0, Some 0, Some 0]"
  by (simp add: calc_var_def ssqdm_def window_at_def upt_rec)

lemma mean_eval_123: "mean (Rolling [Some 1, Some 2, Some 3] 3) = [None, None, Some 2]"
  by (simp add: calc_mean_def window_at_def upt_rec)

lemma std_eval_123: "std (Rolling [Some 1, Some 2, Some 3] 3) = [None, None, Some 1]"
  by (simp add: calc_var_def ssqdm_def window_at_def upt_rec)

lemma mean_eval_1_20: "mean (Rolling [Some 1] 20) = [None]"
  by (simp add: calc_mean_def window_at_def upt_rec)

lemma mean_eval_1_50: "mean (Rolling [Some 1] 50) = [None]"
  by (simp add: calc_mean_def window_at_def upt_rec)

lemma std_eval_1_20: "std (Rolling [Some 1] 20) = [None]"
  by (simp add: calc_var_def window_at_def upt_rec)

text \<open>The specification's scenario for the moving average, run on the code.\<close>

lemma scenario_sma:
  "map_of (snd (calculate_moving_averages 0 3 50
       (store_of [(''Close'', [Some 10, Some 11, Some 12, Some 13, Some 14])])) 0) ''SMA_3''
     = Some [None, None, Some 11, Some 12, Some 13]"
  using sma_column [of "store_of [(''Close'', [Some 10, Some 11, Some 12, Some 13, Some 14])]" 0
      "[Some 10, Some 11, Some 12, Some 13, Some 14]" 3 3 50]
  by (simp add: store_of_def sma_name_3 mean_eval_scenario del: mean.simps)

text \<open>The specification's scenario for the bands, and one with a spread.\<close>

lemma scenario_bollinger:
  "map_of (snd (calculate_bollinger_bands 0 2 2
       (store_of [(''Close'', [Some 5, Some 5, Some 5, Some 5])])) 0) ''Bollinger_High''
     = Some [None, Some 5, Some 5, Some 5]
   \<and> map_of (snd (calculate_bollinger_bands 0 2 2
       (store_of [(''Close'', [Some 5, Some 5, Some 5, Some 5])])) 0) ''Bollinger_Low''
     = Some [None, Some 5, Some 5, Some 5]"
  using bollinger_columns [of "store_of [(''Close'', [Some 5, Some 5, Some 5, Some 5])]" 0
      "[Some 5, Some 5, Some 5, Some 5]" 2 2]
  by (simp add: store_of_def std_eval_5 mean_eval_5 series_add_def series_sub_def series_mul_def
      del: mean.simps std.simps)

lemma bollinger_example:
  "map_of (snd (calculate_bollinger_bands 0 3 2
       (store_of [(''Close'', [Some 1, Some 2, Some 3])])) 0) ''Bollinger_High''
     = Some [None, None, Some 4]
   \<and> map_of (snd (calculate_bollinger_bands 0 3 2
       (store_of [(''Close'', [Some 1, Some 2, Some 3])])) 0) ''Bollinger_Low''
     = Some [None, None, Some 0]"
  using bollinger_columns [of "store_of [(''Close'', [Some 1, Some 2, Some 3])]" 0
      "[Some 1, Some 2, Some 3]" 3 2]
  by (simp add: store_of_def std_eval_123 mean_eval_123 series_add_def series_sub_def
      series_mul_def del: mean.simps std.simps)

text \<open>A run of the script on a table of one day, and one on a table whose index has no name.\<close>

lemma main_example:
  "main (\<lambda>t s e. Returns \<lparr>index_name = Some ''Date'', index_values = [Some 1],
                            table_columns = [(''Close'', [Some 5])]\<rparr>) ''AAPL'' 0 730 False
     = ([Call ''calculate_moving_averages'', Call ''calculate_bollinger_bands'',
         StHeader ''Analysis for AAPL'', StSubheader ''Closing Price & Moving Averages'',
         StPlotlyChart [Scatter [Some 1] [Some 5] ''Close Price'',
                        Scatter [Some 1] [None] ''SMA 20'', Scatter [Some 1] [None] ''SMA 50''],
         StSubheader ''Bollinger Bands'',
         StPlotlyChart [Scatter [Some 1] [Some 5] ''Close Price'',
                        Scatter [Some 1] [None] ''Upper Band'',
                        Scatter [Some 1] [None] ''Lower Band''],
         StCheckbox ''Show Raw Data Table''], None)"
  by (simp add: main_def load_data_def empty_table_def reset_index_def analyse_def getitem_def
      to_datetime_def setitem_def store_of_def calculate_moving_averages_def
      calculate_bollinger_bands_def close_rolling_mean_def close_rolling_std_def bind_err_def
      rolling_def sma_name_20 sma_name_50 calc_mean_def calc_var_def window_at_def upt_rec
      series_add_def series_sub_def series_mul_def fig_price_def fig_bb_def go_scatter_def
      Let_def)

lemma main_unnamed_index:
  "main (\<lambda>t s e. Returns \<lparr>index_name = None, index_values = [Some 1],
                            table_columns = [(''Close'', [Some 5])]\<rparr>) ''AAPL'' 0 730 False
     = ([], Some (KeyError ''Date''))"
  by (simp add: main_def load_data_def empty_table_def reset_index_def analyse_def getitem_def)

subsection \<open>Loading fails or finds nothing\<close>

lemma load_data_raises:
  "yf_download ticker start end_date = Raises e \<Longrightarrow>
     load_data yf_download ticker start end_date
       = (None, [StError (''Error loading data for '' @ ticker @ '': '' @ str_error e)])"
  by (simp add: load_data_def)

lemma load_data_empty:
  "yf_download ticker start end_date = Returns t \<Longrightarrow> empty_table t \<Longrightarrow>
     load_data yf_download ticker start end_date = (None, [])"
  by (simp add: load_data_def)

lemma main_no_data:
  assumes "fst (load_data yf_download ticker start end_date) = None"
  shows "main yf_download ticker start end_date show_raw =
           (snd (load_data yf_download ticker start end_date)
              @ [StWarning ''Could not load data. Please check the ticker symbol and date range.''],
            None)"
  using assms by (cases "load_data yf_download ticker start end_date") (simp add: main_def)

section \<open>The claims of the specification\<close>

text \<open>
  In the statements below a price series is a list \<open>ps\<close> of reals, held in the frame as
  the column \<open>map Some ps\<close> under the name \<^verbatim>\<open>Close\<close>; windows are natural numbers
  passed as Python integers.
\<close>

subsection \<open>C1: the moving average is the trailing arithmetic mean\<close>

text \<open>
  Claim C1. For every price series and all positive windows, the call
  \<^verbatim>\<open>calculate_moving_averages\<close> succeeds, and for each of its two windows \<open>w\<close> the
  column \<^verbatim>\<open>SMA_w\<close> has the length of the series, holds at each position \<open>i \<ge> w - 1\<close>
  the arithmetic mean of the prices at positions \<open>i - w + 1 .. i\<close>, and is undefined at
  each position \<open>i < w - 1\<close>.
\<close>

theorem sma_trailing_mean:
  assumes "map_of (\<sigma> data) ''Close'' = Some (map Some ps)"
    and "1 \<le> short_window" and "1 \<le> long_window"
    and "w = short_window \<or> w = long_window"
  shows "\<exists>\<sigma>' sma.
           calculate_moving_averages data (int short_window) (int long_window) \<sigma> = (Inr data, \<sigma>')
         \<and> map_of (\<sigma>' data) (sma_name (int w)) = Some sma
         \<and> length sma = length ps
         \<and> (\<forall>i<length ps. sma ! i = (if w - 1 \<le> i then Some (trailing_mean ps w i) else None))"
proof -
  let ?r = "calculate_moving_averages data (int short_window) (int long_window) \<sigma>"
  have w: "1 \<le> w" using assms by auto
  have "?r = (Inr data, snd ?r)"
    using assms(1) by (simp add: moving_averages_result)
  moreover have "map_of (snd ?r data) (sma_name (int w)) = Some (mean (Rolling (map Some ps) w))"
    using assms(1,4) by (rule sma_column)
  moreover have "length (mean (Rolling (map Some ps) w)) = length ps"
    by simp
  moreover have "\<forall>i<length ps. mean (Rolling (map Some ps) w) ! i
                   = (if w - 1 \<le> i then Some (trailing_mean ps w i) else None)"
    using w by (simp add: nth_mean_spec del: mean.simps)
  ultimately show ?thesis by blast
qed

text \<open>
  The scenario of the specification: the series \<open>[10, 11, 12, 13, 14]\<close> with window 3
  (and the default long window) has the moving average \<open>[11, 12, 13]\<close> at the indices
  2, 3 and 4, and none before.
\<close>

theorem sma_trailing_mean_witness:
  "map_of (store_of [(''Close'', map Some [10, 11, 12, 13, 14])] 0) ''Close''
      = Some (map Some [10, 11, 12, 13, 14])
   \<and> (1::nat) \<le> 3 \<and> (1::nat) \<le> 50 \<and> ((3::nat) = 3 \<or> (3::nat) = 50)
   \<and> (\<exists>\<sigma>' sma.
         calculate_moving_averages 0 (int 3) (int 50)
            (store_of [(''Close'', map Some [10, 11, 12, 13, 14])]) = (Inr 0, \<sigma>')
       \<and> map_of (\<sigma>' 0) (sma_name (int 3)) = Some sma
       \<and> length sma = length [10, 11, 12, 13, 14 :: real]
       \<and> (\<forall>i<length [10, 11, 12, 13, 14 :: real].
            sma ! i = (if 3 - 1 \<le> i then Some (trailing_mean [10, 11, 12, 13, 14] 3 i) else None)))
   \<and> map_of (snd (calculate_moving_averages 0 3 50
         (store_of [(''Close'', [Some 10, Some 11, Some 12, Some 13, Some 14])])) 0) ''SMA_3''
       = Some [None, None, Some 11, Some 12, Some 13]"
  using sma_trailing_mean [of "store_of [(''Close'', map Some [10, 11, 12, 13, 14])]" 0
      "[10, 11, 12, 13, 14]" 3 50 3]
    scenario_sma
  by (simp add: store_of_def)

subsection \<open>C2: where the moving average is defined\<close>

text \<open>
  Claim C2. For every window \<open>w \<ge> 1\<close> and every price series of length \<open>n\<close>, the column
  \<^verbatim>\<open>SMA_w\<close> has exactly \<open>max 0 (n - w + 1)\<close> defined values, at exactly the positions
  \<open>w - 1 .. n - 1\<close>; when \<open>w > n\<close> the whole column is undefined.
\<close>

theorem sma_defined_tail:
  assumes "map_of (\<sigma> data) ''Close'' = Some (map Some ps)"
    and "1 \<le> short_window" and "1 \<le> long_window"
    and "w = short_window \<or> w = long_window"
  shows "\<exists>\<sigma>' sma.
           calculate_moving_averages data (int short_window) (int long_window) \<sigma> = (Inr data, \<sigma>')
         \<and> map_of (\<sigma>' data) (sma_name (int w)) = Some sma
         \<and> length sma = length ps
         \<and> int (length (filter (\<lambda>v. v \<noteq> None) sma)) = max 0 (int (length ps) - int w + 1)
         \<and> (\<forall>i<length ps. sma ! i \<noteq> None \<longleftrightarrow> w - 1 \<le> i)
         \<and> (length ps < w \<longrightarrow> (\<forall>i<length ps. sma ! i = None))"
proof -
  let ?r = "calculate_moving_averages data (int short_window) (int long_window) \<sigma>"
  let ?m = "mean (Rolling (map Some ps) w)"
  have w: "1 \<le> w" using assms by auto
  have r: "?r = (Inr data, snd ?r)"
    using assms(1) by (simp add: moving_averages_result)
  have col: "map_of (snd ?r data) (sma_name (int w)) = Some ?m"
    using assms(1,4) by (rule sma_column)
  have len: "length ?m = length ps"
    by simp
  have def: "\<forall>i<length ps. ?m ! i \<noteq> None \<longleftrightarrow> w - 1 \<le> i"
    using w mean_defined_iff [of _ ps w] by blast
  have "length (filter (\<lambda>v. v \<noteq> None) ?m) = length ps - (w - 1)"
    using len def by (rule count_defined)
  then have cnt: "int (length (filter (\<lambda>v. v \<noteq> None) ?m)) = max 0 (int (length ps) - int w + 1)"
    using w by (simp del: mean.simps)
  have none: "length ps < w \<longrightarrow> (\<forall>i<length ps. ?m ! i = None)"
    using def by (auto simp del: mean.simps)
  show ?thesis
    using r col len cnt def none by blast
qed

text \<open>Five prices and the windows 3 and 50: the long average is undefined throughout.\<close>

theorem sma_defined_tail_witness:
  "map_of (store_of [(''Close'', map Some [10, 11, 12, 13, 14])] 0) ''Close''
      = Some (map Some [10, 11, 12, 13, 14])
   \<and> (1::nat) \<le> 3 \<and> (1::nat) \<le> 50 \<and> ((50::nat) = 3 \<or> (50::nat) = 50)
   \<and> (\<exists>\<sigma>' sma.
         calculate_moving_averages 0 (int 3) (int 50)
            (store_of [(''Close'', map Some [10, 11, 12, 13, 14])]) = (Inr 0, \<sigma>')
       \<and> map_of (\<sigma>' 0) (sma_name (int 50)) = Some sma
       \<and> length sma = length [10, 11, 12, 13, 14 :: real]
       \<and> int (length (filter (\<lambda>v. v \<noteq> None) sma))
           = max 0 (int (length [10, 11, 12, 13, 14 :: real]) - int 50 + 1)
       \<and> (\<forall>i<length [10, 11, 12, 13, 14 :: real]. sma ! i \<noteq> None \<longleftrightarrow> 50 - 1 \<le> i)
       \<and> (length [10, 11, 12, 13, 14 :: real] < 50 \<longrightarrow>
            (\<forall>i<length [10, 11, 12, 13, 14 :: real]. sma ! i = None)))"
  using sma_defined_tail [of "store_of [(''Close'', map Some [10, 11, 12, 13, 14])]" 0
      "[10, 11, 12, 13, 14]" 3 50 50]
  by (simp add: store_of_def)

subsection \<open>C3: the bands are the mean plus and minus a multiple of the deviation\<close>

text \<open>
  Claim C3. For every price series, every positive window \<open>w\<close> and every multiplier \<open>k\<close>,
  the call \<^verbatim>\<open>calculate_bollinger_bands\<close> succeeds, the upper band at each defined
  position \<open>i\<close> is \<open>\<mu> + k * \<sigma>\<close> and the lower band is \<open>\<mu> - k * \<sigma>\<close>, for the trailing
  mean \<open>\<mu>\<close> and the trailing sample standard deviation \<open>\<sigma>\<close> (dividing by \<open>w - 1\<close>) over
  the positions \<open>i - w + 1 .. i\<close>, and both bands are undefined for \<open>i < w - 1\<close>. The
  bands are defined exactly at the positions \<open>i \<ge> w - 1\<close> of a window \<open>w \<ge> 2\<close>.
\<close>

theorem bollinger_bands_formula:
  assumes "map_of (\<sigma> data) ''Close'' = Some (map Some ps)" and "1 \<le> window"
  shows "\<exists>\<sigma>' hi lo.
           calculate_bollinger_bands data (int window) k \<sigma> = (Inr data, \<sigma>')
         \<and> map_of (\<sigma>' data) ''Bollinger_High'' = Some hi
         \<and> map_of (\<sigma>' data) ''Bollinger_Low'' = Some lo
         \<and> length hi = length ps \<and> length lo = length ps
         \<and> (\<forall>i<length ps.
               hi ! i = (if 2 \<le> window \<and> window - 1 \<le> i
                         then Some (trailing_mean ps window i + k * trailing_sample_std ps window i)
                         else None)
             \<and> lo ! i = (if 2 \<le> window \<and> window - 1 \<le> i
                         then Some (trailing_mean ps window i - k * trailing_sample_std ps window i)
                         else None))"
proof -
  let ?c = "map Some ps"
  let ?r = "calculate_bollinger_bands data (int window) k \<sigma>"
  let ?hi = "series_add (mean (Rolling ?c window)) (series_mul (std (Rolling ?c window)) k)"
  let ?lo = "series_sub (mean (Rolling ?c window)) (series_mul (std (Rolling ?c window)) k)"
  have r: "?r = (Inr data, snd ?r)"
    using assms(1) by (simp add: bollinger_result)
  have hi: "map_of (snd ?r data) ''Bollinger_High'' = Some ?hi"
    and lo: "map_of (snd ?r data) ''Bollinger_Low'' = Some ?lo"
    using assms(1) by (rule bollinger_columns)+
  have len: "length ?hi = length ps" "length ?lo = length ps"
    by (simp_all add: length_series_add length_series_sub length_series_mul)
  have vals: "\<forall>i<length ps.
               ?hi ! i = (if 2 \<le> window \<and> window - 1 \<le> i
                         then Some (trailing_mean ps window i + k * trailing_sample_std ps window i)
                         else None)
             \<and> ?lo ! i = (if 2 \<le> window \<and> window - 1 \<le> i
                         then Some (trailing_mean ps window i - k * trailing_sample_std ps window i)
                         else None)"
  proof (intro allI impI)
    fix i assume i: "i < length ps"
    then have "i < length ?c" by simp
    then show "?hi ! i = (if 2 \<le> window \<and> window - 1 \<le> i
                         then Some (trailing_mean ps window i + k * trailing_sample_std ps window i)
                         else None)
             \<and> ?lo ! i = (if 2 \<le> window \<and> window - 1 \<le> i
                         then Some (trailing_mean ps window i - k * trailing_sample_std ps window i)
                         else None)"
      using i assms(2)
      by (simp add: nth_upper nth_lower nth_std_spec nth_mean_spec mult.commute
          del: mean.simps std.simps)
  qed
  show ?thesis
    using r hi lo len vals by blast
qed

text \<open>The prices \<open>[1, 2, 3]\<close> with window 3 and multiplier 2.\<close>

theorem bollinger_bands_formula_witness:
  "map_of (store_of [(''Close'', map Some [1, 2, 3])] 0) ''Close'' = Some (map Some [1, 2, 3])
   \<and> (1::nat) \<le> 3
   \<and> (\<exists>\<sigma>' hi lo.
         calculate_bollinger_bands 0 (int 3) 2 (store_of [(''Close'', map Some [1, 2, 3])])
           = (Inr 0, \<sigma>')
       \<and> map_of (\<sigma>' 0) ''Bollinger_High'' = Some hi
       \<and> map_of (\<sigma>' 0) ''Bollinger_Low'' = Some lo
       \<and> length hi = length [1, 2, 3 :: real] \<and> length lo = length [1, 2, 3 :: real]
       \<and> (\<forall>i<length [1, 2, 3 :: real].
             hi ! i = (if 2 \<le> (3::nat) \<and> 3 - 1 \<le> i
                       then Some (trailing_mean [1, 2, 3] 3 i + 2 * trailing_sample_std [1, 2, 3] 3 i)
                       else None)
           \<and> lo ! i = (if 2 \<le> (3::nat) \<and> 3 - 1 \<le> i
                       then Some (trailing_mean [1, 2, 3] 3 i - 2 * trailing_sample_std [1, 2, 3] 3 i)
                       else None)))
   \<and> map_of (snd (calculate_bollinger_bands 0 3 2
         (store_of [(''Close'', [Some 1, Some 2, Some 3])])) 0) ''Bollinger_High''
       = Some [None, None, Some 4]
   \<and> map_of (snd (calculate_bollinger_bands 0 3 2
         (store_of [(''Close'', [Some 1, Some 2, Some 3])])) 0) ''Bollinger_Low''
       = Some [None, None, Some 0]"
  using bollinger_bands_formula [of "store_of [(''Close'', map Some [1, 2, 3])]" 0 "[1, 2, 3]" 3 2]
    bollinger_example
  by (simp add: store_of_def)

subsection \<open>C4: the upper band is not below the lower band\<close>

text \<open>
  Claim C4 says that for every non-negative multiplier the bands are equal at a defined
  position if and only if the rolling standard deviation there is 0. With the
  multiplier 0 this fails: for the prices \<open>[1, 3]\<close> and window 2 both bands are 2 at
  index 1, where the standard deviation is \<open>sqrt 2\<close>.
\<close>

theorem bollinger_equality_counterexample:
  "map_of (snd (calculate_bollinger_bands 0 2 0 (store_of [(''Close'', [Some 1, Some 3])])) 0)
       ''Bollinger_High'' = Some [None, Some 2]
   \<and> map_of (snd (calculate_bollinger_bands 0 2 0 (store_of [(''Close'', [Some 1, Some 3])])) 0)
       ''Bollinger_Low'' = Some [None, Some 2]
   \<and> close_rolling_std (store_of [(''Close'', [Some 1, Some 3])] 0) 2 = Inr [None, Some (sqrt 2)]
   \<and> Some (sqrt 2) \<noteq> Some (0::real)"
  using bollinger_columns [of "store_of [(''Close'', [Some 1, Some 3])]" 0 "[Some 1, Some 3]" 2 0]
    close_rolling_std_eq [of "[(''Close'', [Some 1, Some 3])]" "[Some 1, Some 3]" 2]
  by (simp add: store_of_def std_eval_13 mean_eval_13 series_add_def series_sub_def series_mul_def
      del: mean.simps std.simps)

text \<open>
  Claim C4, amended. For every frame with a \<^verbatim>\<open>Close\<close> column, every window and every
  multiplier \<open>k \<ge> 0\<close>, at every position where the bands are defined the upper band is
  greater than or equal to the lower band, and the two are equal whenever the rolling
  standard deviation at that position is 0 or the multiplier is 0. The converse is not
  asserted: equal bands do not tell that the standard deviation is 0.
\<close>

theorem bollinger_order:
  assumes "map_of (\<sigma> data) ''Close'' = Some c" and "0 \<le> k"
  shows "\<exists>\<sigma>' hi lo sd.
           calculate_bollinger_bands data (int window) k \<sigma> = (Inr data, \<sigma>')
         \<and> map_of (\<sigma>' data) ''Bollinger_High'' = Some hi
         \<and> map_of (\<sigma>' data) ''Bollinger_Low'' = Some lo
         \<and> close_rolling_std (\<sigma> data) (int window) = Inr sd
         \<and> (\<forall>i<length c. \<forall>u v. hi ! i = Some u \<and> lo ! i = Some v \<longrightarrow>
               v \<le> u \<and> (sd ! i = Some 0 \<or> k = 0 \<longrightarrow> u = v))"
proof -
  let ?r = "calculate_bollinger_bands data (int window) k \<sigma>"
  let ?m = "mean (Rolling c window)"
  let ?sd = "std (Rolling c window)"
  let ?hi = "series_add ?m (series_mul ?sd k)"
  let ?lo = "series_sub ?m (series_mul ?sd k)"
  have r: "?r = (Inr data, snd ?r)"
    using assms(1) by (simp add: bollinger_result)
  have hi: "map_of (snd ?r data) ''Bollinger_High'' = Some ?hi"
    and lo: "map_of (snd ?r data) ''Bollinger_Low'' = Some ?lo"
    using assms(1) by (rule bollinger_columns)+
  have sd: "close_rolling_std (\<sigma> data) (int window) = Inr ?sd"
    using assms(1) by (rule close_rolling_std_eq)
  have vals: "\<forall>i<length c. \<forall>u v. ?hi ! i = Some u \<and> ?lo ! i = Some v \<longrightarrow>
               v \<le> u \<and> (?sd ! i = Some 0 \<or> k = 0 \<longrightarrow> u = v)"
  proof (intro allI impI)
    fix i u v
    assume i: "i < length c" and uv: "?hi ! i = Some u \<and> ?lo ! i = Some v"
    from uv i have u: "cell_add (?m ! i) (map_option (\<lambda>x. x * k) (?sd ! i)) = Some u"
      and v: "cell_sub (?m ! i) (map_option (\<lambda>x. x * k) (?sd ! i)) = Some v"
      by (simp_all only: nth_upper nth_lower)
    from u obtain m s where m: "?m ! i = Some m" and s: "?sd ! i = Some s"
      by (cases "?m ! i"; cases "?sd ! i") simp_all
    from i s have "0 \<le> s" by (rule std_nonneg)
    moreover from u v m s have "u = m + s * k" "v = m - s * k"
      by simp_all
    ultimately show "v \<le> u \<and> (?sd ! i = Some 0 \<or> k = 0 \<longrightarrow> u = v)"
      using assms(2) s by auto
  qed
  show ?thesis
    using r hi lo sd vals by blast
qed

text \<open>
  The scenario of the specification: the series \<open>[5, 5, 5, 5]\<close> with window 2 and
  multiplier 2 has the rolling standard deviation 0 and both bands equal to 5 at every
  defined index.
\<close>

theorem bollinger_order_witness:
  "map_of (store_of [(''Close'', [Some 5, Some 5, Some 5, Some 5])] 0) ''Close''
      = Some [Some 5, Some 5, Some 5, Some 5]
   \<and> (0::real) \<le> 2
   \<and> (\<exists>\<sigma>' hi lo sd.
         calculate_bollinger_bands 0 (int 2) 2 (store_of [(''Close'', [Some 5, Some 5, Some 5, Some 5])])
           = (Inr 0, \<sigma>')
       \<and> map_of (\<sigma>' 0) ''Bollinger_High'' = Some hi
       \<and> map_of (\<sigma>' 0) ''Bollinger_Low'' = Some lo
       \<and> close_rolling_std (store_of [(''Close'', [Some 5, Some 5, Some 5, Some 5])] 0) (int 2) = Inr sd
       \<and> (\<forall>i<length [Some 5, Some 5, Some 5, Some (5::real)]. \<forall>u v.
             hi ! i = Some u \<and> lo ! i = Some v \<longrightarrow>
               v \<le> u \<and> (sd ! i = Some 0 \<or> (2::real) = 0 \<longrightarrow> u = v)))
   \<and> close_rolling_std (store_of [(''Close'', [Some 5, Some 5, Some 5, Some 5])] 0) 2
       = Inr [None, Some 0, Some 0, Some 0]
   \<and> map_of (snd (calculate_bollinger_bands 0 2 2
         (store_of [(''Close'', [Some 5, Some 5, Some 5, Some 5])])) 0) ''Bollinger_High''
       = Some [None, Some 5, Some 5, Some 5]
   \<and> map_of (snd (calculate_bollinger_bands 0 2 2
         (store_of [(''Close'', [Some 5, Some 5, Some 5, Some 5])])) 0) ''Bollinger_Low''
       = Some [None, Some 5, Some 5, Some 5]"
  using bollinger_order [of "store_of [(''Close'', [Some 5, Some 5, Some 5, Some 5])]" 0
      "[Some 5, Some 5, Some 5, Some 5]" 2 2]
    scenario_bollinger
    close_rolling_std_eq [of "[(''Close'', [Some 5, Some 5, Some 5, Some 5])]"
      "[Some 5, Some 5, Some 5, Some 5]" 2]
  by (simp add: store_of_def std_eval_5 del: std.simps)

subsection \<open>C5: a window of one reproduces the prices\<close>

text \<open>
  Claim C5. For every \<^verbatim>\<open>Close\<close> column, when one of the two windows is 1 the column
  \<^verbatim>\<open>SMA_1\<close> produced by \<^verbatim>\<open>calculate_moving_averages\<close> equals the \<^verbatim>\<open>Close\<close> column,
  position by position (NaN where the price is NaN).
\<close>

theorem sma_window_one_is_close:
  assumes "map_of (\<sigma> data) ''Close'' = Some c"
    and "short_window = 1 \<or> long_window = 1"
  shows "\<exists>\<sigma>'. calculate_moving_averages data (int short_window) (int long_window) \<sigma> = (Inr data, \<sigma>')
              \<and> map_of (\<sigma>' data) (sma_name 1) = Some c
              \<and> map_of (\<sigma>' data) ''Close'' = Some c"
proof -
  let ?r = "calculate_moving_averages data (int short_window) (int long_window) \<sigma>"
  have r: "?r = (Inr data, snd ?r)"
    using assms(1) by (simp add: moving_averages_result)
  have "1 = short_window \<or> 1 = long_window" using assms(2) by auto
  with assms(1) have "map_of (snd ?r data) (sma_name (int 1)) = Some (mean (Rolling c 1))"
    by (rule sma_column)
  then have col: "map_of (snd ?r data) (sma_name 1) = Some c"
    by (simp add: mean_window_one del: mean.simps)
  have "map_of (snd ?r data) ''Close'' = Some c"
    using assms(1) by (simp add: moving_averages_result map_of_setitem)
  with r col show ?thesis by blast
qed

theorem sma_window_one_is_close_witness:
  "map_of (store_of [(''Close'', [Some 10, None, Some 12])] 0) ''Close'' = Some [Some 10, None, Some 12]
   \<and> ((1::nat) = 1 \<or> (50::nat) = 1)
   \<and> (\<exists>\<sigma>'. calculate_moving_averages 0 (int 1) (int 50) (store_of [(''Close'', [Some 10, None, Some 12])])
              = (Inr 0, \<sigma>')
          \<and> map_of (\<sigma>' 0) (sma_name 1) = Some [Some 10, None, Some 12]
          \<and> map_of (\<sigma>' 0) ''Close'' = Some [Some 10, None, Some 12])"
  using sma_window_one_is_close [of "store_of [(''Close'', [Some 10, None, Some 12])]" 0
      "[Some 10, None, Some 12]" 1 50]
  by (simp add: store_of_def)

subsection \<open>C6: what the functions do to their argument\<close>

text \<open>
  Claim C6 says that both functions are pure and work on an immutable snapshot. They
  are not: each assigns its columns to the frame it was given. After
  \<^verbatim>\<open>calculate_moving_averages\<close> the caller's frame with the one column \<^verbatim>\<open>Close\<close> has
  three columns.
\<close>

theorem calculators_pure_counterexample:
  "snd (calculate_moving_averages 0 20 50 (store_of [(''Close'', [Some 1])])) 0
     = [(''Close'', [Some 1]), (''SMA_20'', [None]), (''SMA_50'', [None])]
   \<and> snd (calculate_moving_averages 0 20 50 (store_of [(''Close'', [Some 1])])) 0
     \<noteq> store_of [(''Close'', [Some 1])] 0"
  using moving_averages_result [of "store_of [(''Close'', [Some 1])]" 0 "[Some 1]" 20 50]
  by (simp add: store_of_def sma_name_20 sma_name_50 mean_eval_1_20 mean_eval_1_50 setitem_def
      del: mean.simps)

text \<open>
  Claim C6, amended. Both functions are stateless and never change the price series: on
  a frame with a \<^verbatim>\<open>Close\<close> column and with natural windows, each returns the frame it
  was given, updated in place by the assignment of its two derived columns, whose values
  are computed from the \<^verbatim>\<open>Close\<close> column and the parameters alone; the \<^verbatim>\<open>Close\<close>
  column is the same afterwards, and no other frame of the store is changed.
\<close>

theorem calculators_update_frame_in_place:
  assumes "map_of (\<sigma> data) ''Close'' = Some c"
  shows "\<exists>\<sigma>1 \<sigma>2.
           calculate_moving_averages data (int s) (int l) \<sigma> = (Inr data, \<sigma>1)
         \<and> calculate_bollinger_bands data (int w) k \<sigma> = (Inr data, \<sigma>2)
         \<and> \<sigma>1 data = setitem (setitem (\<sigma> data) (sma_name (int s)) (mean (Rolling c s)))
                         (sma_name (int l)) (mean (Rolling c l))
         \<and> \<sigma>2 data = setitem (setitem (\<sigma> data) ''Bollinger_High''
                            (series_add (mean (Rolling c w)) (series_mul (std (Rolling c w)) k)))
                         ''Bollinger_Low''
                            (series_sub (mean (Rolling c w)) (series_mul (std (Rolling c w)) k))
         \<and> map_of (\<sigma>1 data) ''Close'' = Some c
         \<and> map_of (\<sigma>2 data) ''Close'' = Some c
         \<and> (\<forall>d. d \<noteq> data \<longrightarrow> \<sigma>1 d = \<sigma> d \<and> \<sigma>2 d = \<sigma> d)"
proof -
  let ?r1 = "calculate_moving_averages data (int s) (int l) \<sigma>"
  let ?r2 = "calculate_bollinger_bands data (int w) k \<sigma>"
  have r1: "?r1 = (Inr data, snd ?r1)" and r2: "?r2 = (Inr data, snd ?r2)"
    using assms by (simp_all add: moving_averages_result bollinger_result)
  have f1: "snd ?r1 data = setitem (setitem (\<sigma> data) (sma_name (int s)) (mean (Rolling c s)))
                         (sma_name (int l)) (mean (Rolling c l))"
    using assms by (simp add: moving_averages_result)
  have f2: "snd ?r2 data = setitem (setitem (\<sigma> data) ''Bollinger_High''
                            (series_add (mean (Rolling c w)) (series_mul (std (Rolling c w)) k)))
                         ''Bollinger_Low''
                            (series_sub (mean (Rolling c w)) (series_mul (std (Rolling c w)) k))"
    using assms by (simp add: bollinger_result)
  have c1: "map_of (snd ?r1 data) ''Close'' = Some c"
    using assms by (simp add: moving_averages_other_columns)
  have c2: "map_of (snd ?r2 data) ''Close'' = Some c"
    using assms by (simp add: bollinger_other_columns)
  have o: "\<forall>d. d \<noteq> data \<longrightarrow> snd ?r1 d = \<sigma> d \<and> snd ?r2 d = \<sigma> d"
    by (simp add: moving_averages_other_refs bollinger_other_refs)
  show ?thesis
    using r1 r2 f1 f2 c1 c2 o by blast
qed

text \<open>A frame of one day with the default parameters: the stores after the two calls.\<close>

theorem calculators_update_frame_in_place_witness:
  "map_of (store_of [(''Date'', [Some 1]), (''Close'', [Some 5])] 0) ''Close'' = Some [Some 5]
   \<and> calculate_moving_averages 0 (int 20) (int 50) (store_of [(''Date'', [Some 1]), (''Close'', [Some 5])])
       = (Inr 0, (store_of [(''Date'', [Some 1]), (''Close'', [Some 5])])
                   (0 := [(''Date'', [Some 1]), (''Close'', [Some 5]),
                          (''SMA_20'', [None]), (''SMA_50'', [None])]))
   \<and> calculate_bollinger_bands 0 (int 20) 2 (store_of [(''Date'', [Some 1]), (''Close'', [Some 5])])
       = (Inr 0, (store_of [(''Date'', [Some 1]), (''Close'', [Some 5])])
                   (0 := [(''Date'', [Some 1]), (''Close'', [Some 5]),
                          (''Bollinger_High'', [None]), (''Bollinger_Low'', [None])]))"
proof -
  let ?\<sigma> = "store_of [(''Date'', [Some 1]), (''Close'', [Some 5])]"
  have h: "map_of (?\<sigma> 0) ''Close'' = Some [Some 5]"
    by (simp add: store_of_def)
  from h calculators_update_frame_in_place [of ?\<sigma> 0 "[Some 5]" 20 50 20 2]
  obtain \<sigma>1 \<sigma>2 where
    r1: "calculate_moving_averages 0 (int 20) (int 50) ?\<sigma> = (Inr 0, \<sigma>1)"
    and r2: "calculate_bollinger_bands 0 (int 20) 2 ?\<sigma> = (Inr 0, \<sigma>2)"
    and f1: "\<sigma>1 0 = setitem (setitem (?\<sigma> 0) (sma_name (int 20)) (mean (Rolling [Some 5] 20)))
                         (sma_name (int 50)) (mean (Rolling [Some 5] 50))"
    and f2: "\<sigma>2 0 = setitem (setitem (?\<sigma> 0) ''Bollinger_High''
                (series_add (mean (Rolling [Some 5] 20)) (series_mul (std (Rolling [Some 5] 20)) 2)))
                ''Bollinger_Low''
                (series_sub (mean (Rolling [Some 5] 20)) (series_mul (std (Rolling [Some 5] 20)) 2))"
    and o: "\<forall>d. d \<noteq> 0 \<longrightarrow> \<sigma>1 d = ?\<sigma> d \<and> \<sigma>2 d = ?\<sigma> d"
    by blast
  have m20: "mean (Rolling [Some 5] 20) = [None]" and m50: "mean (Rolling [Some 5] 50) = [None]"
    and s20: "std (Rolling [Some 5] 20) = [None]"
    by (simp_all add: calc_mean_def calc_var_def window_at_def upt_rec)
  have "\<sigma>1 0 = [(''Date'', [Some 1]), (''Close'', [Some 5]), (''SMA_20'', [None]), (''SMA_50'', [None])]"
    using f1 by (simp add: m20 m50 sma_name_20 sma_name_50 setitem_def store_of_def del: mean.simps)
  with o have "\<sigma>1 = ?\<sigma>(0 := [(''Date'', [Some 1]), (''Close'', [Some 5]),
                                (''SMA_20'', [None]), (''SMA_50'', [None])])"
    by (auto simp add: fun_eq_iff)
  moreover have "\<sigma>2 0 = [(''Date'', [Some 1]), (''Close'', [Some 5]),
                          (''Bollinger_High'', [None]), (''Bollinger_Low'', [None])]"
    using f2
    by (simp add: m20 s20 setitem_def store_of_def series_add_def series_sub_def series_mul_def
        del: mean.simps std.simps)
  with o have "\<sigma>2 = ?\<sigma>(0 := [(''Date'', [Some 1]), (''Close'', [Some 5]),
                          (''Bollinger_High'', [None]), (''Bollinger_Low'', [None])])"
    by (auto simp add: fun_eq_iff)
  ultimately show ?thesis
    using h r1 r2 by simp
qed

subsection \<open>C7: a second run gives the same output\<close>

text \<open>
  Claim C7. Running either function twice on the same price series with the same
  parameters gives identical output: a second call on the frame that the first call
  returned gives the same result and leaves every column as the first call left it, and
  calls on two frames with the same \<^verbatim>\<open>Close\<close> column produce the same derived columns,
  undefined positions included.
\<close>

theorem rerun_gives_identical_output:
  assumes "map_of (\<sigma> a) ''Close'' = Some c" and "map_of (\<tau> b) ''Close'' = Some c"
  shows "calculate_moving_averages a (int s) (int l)
             (snd (calculate_moving_averages a (int s) (int l) \<sigma>))
           = calculate_moving_averages a (int s) (int l) \<sigma>
       \<and> calculate_bollinger_bands a (int w) k (snd (calculate_bollinger_bands a (int w) k \<sigma>))
           = calculate_bollinger_bands a (int w) k \<sigma>
       \<and> map_of (snd (calculate_moving_averages a (int s) (int l) \<sigma>) a) (sma_name (int s))
           = map_of (snd (calculate_moving_averages b (int s) (int l) \<tau>) b) (sma_name (int s))
       \<and> map_of (snd (calculate_moving_averages a (int s) (int l) \<sigma>) a) (sma_name (int l))
           = map_of (snd (calculate_moving_averages b (int s) (int l) \<tau>) b) (sma_name (int l))
       \<and> map_of (snd (calculate_bollinger_bands a (int w) k \<sigma>) a) ''Bollinger_High''
           = map_of (snd (calculate_bollinger_bands b (int w) k \<tau>) b) ''Bollinger_High''
       \<and> map_of (snd (calculate_bollinger_bands a (int w) k \<sigma>) a) ''Bollinger_Low''
           = map_of (snd (calculate_bollinger_bands b (int w) k \<tau>) b) ''Bollinger_Low''"
proof -
  have "map_of (snd (calculate_moving_averages a (int s) (int l) \<sigma>) a) (sma_name (int x))
          = map_of (snd (calculate_moving_averages b (int s) (int l) \<tau>) b) (sma_name (int x))"
    if "x = s \<or> x = l" for x
    using assms that sma_column [of \<sigma> a c x s l] sma_column [of \<tau> b c x s l] by simp
  then show ?thesis
    using assms bollinger_columns [of \<sigma> a c w k] bollinger_columns [of \<tau> b c w k]
    by (simp add: moving_averages_twice bollinger_twice)
qed

text \<open>Two frames with the same prices, one of them with a date column.\<close>

theorem rerun_gives_identical_output_witness:
  "map_of (store_of [(''Close'', [Some 5, Some 7])] 0) ''Close'' = Some [Some 5, Some 7]
   \<and> map_of (store_of [(''Date'', [Some 1, Some 2]), (''Close'', [Some 5, Some 7])] 0) ''Close''
       = Some [Some 5, Some 7]
   \<and> calculate_moving_averages 0 (int 1) (int 2)
         (snd (calculate_moving_averages 0 (int 1) (int 2) (store_of [(''Close'', [Some 5, Some 7])])))
       = calculate_moving_averages 0 (int 1) (int 2) (store_of [(''Close'', [Some 5, Some 7])])
   \<and> calculate_bollinger_bands 0 (int 2) 2
         (snd (calculate_bollinger_bands 0 (int 2) 2 (store_of [(''Close'', [Some 5, Some 7])])))
       = calculate_bollinger_bands 0 (int 2) 2 (store_of [(''Close'', [Some 5, Some 7])])
   \<and> map_of (snd (calculate_moving_averages 0 (int 1) (int 2)
         (store_of [(''Close'', [Some 5, Some 7])])) 0) (sma_name (int 2))
       = map_of (snd (calculate_moving_averages 0 (int 1) (int 2)
         (store_of [(''Date'', [Some 1, Some 2]), (''Close'', [Some 5, Some 7])])) 0) (sma_name (int 2))
   \<and> map_of (snd (calculate_bollinger_bands 0 (int 2) 2
         (store_of [(''Close'', [Some 5, Some 7])])) 0) ''Bollinger_High''
       = map_of (snd (calculate_bollinger_bands 0 (int 2) 2
         (store_of [(''Date'', [Some 1, Some 2]), (''Close'', [Some 5, Some 7])])) 0) ''Bollinger_High''"
  using rerun_gives_identical_output [of "store_of [(''Close'', [Some 5, Some 7])]" 0
      "[Some 5, Some 7]" "store_of [(''Date'', [Some 1, Some 2]), (''Close'', [Some 5, Some 7])]" 0
      1 2 2 2]
  by (simp add: store_of_def)

subsection \<open>C8: no data\<close>

text \<open>
  Claim C8. When the provider raises an exception or returns an empty table,
  \<^verbatim>\<open>load_data\<close> returns \<open>None\<close>, and the script ends without an exception, without
  having called either analysis function, its last element being the warning that the
  data could not be loaded.
\<close>

theorem no_data_gives_warning:
  assumes "yf_download ticker start end_date = Raises e
           \<or> (\<exists>t. yf_download ticker start end_date = Returns t \<and> empty_table t)"
  shows "fst (load_data yf_download ticker start end_date) = None
       \<and> (\<exists>evs. main yf_download ticker start end_date show_raw = (evs, None)
              \<and> Call ''calculate_moving_averages'' \<notin> set evs
              \<and> Call ''calculate_bollinger_bands'' \<notin> set evs
              \<and> last evs
                  = StWarning ''Could not load data. Please check the ticker symbol and date range.'')"
proof -
  let ?ld = "load_data yf_download ticker start end_date"
  let ?w = "StWarning ''Could not load data. Please check the ticker symbol and date range.''"
  from assms
  have ld: "?ld = (None, [StError (''Error loading data for '' @ ticker @ '': '' @ str_error e)])
            \<or> ?ld = (None, [])"
    by (auto simp add: load_data_raises load_data_empty)
  then have none: "fst ?ld = None" by auto
  from ld have calls: "Call ''calculate_moving_averages'' \<notin> set (snd ?ld)"
      "Call ''calculate_bollinger_bands'' \<notin> set (snd ?ld)"
    by auto
  have "main yf_download ticker start end_date show_raw = (snd ?ld @ [?w], None)"
    using none by (rule main_no_data)
  moreover have "Call ''calculate_moving_averages'' \<notin> set (snd ?ld @ [?w])"
    and "Call ''calculate_bollinger_bands'' \<notin> set (snd ?ld @ [?w])"
    using calls by simp_all
  moreover have "last (snd ?ld @ [?w]) = ?w"
    by simp
  ultimately show ?thesis
    using none by blast
qed

text \<open>A provider that times out, and one that returns a table without rows.\<close>

theorem no_data_gives_warning_witness:
  "((\<lambda>t s e. Raises (Exception ''timed out'')) ''AAPL'' 0 730 = Raises (Exception ''timed out'')
     \<or> (\<exists>t. (\<lambda>t s e. Raises (Exception ''timed out'')) ''AAPL'' 0 730 = Returns t \<and> empty_table t))
   \<and> fst (load_data (\<lambda>t s e. Raises (Exception ''timed out'')) ''AAPL'' 0 730) = None
   \<and> main (\<lambda>t s e. Raises (Exception ''timed out'')) ''AAPL'' 0 730 True
       = ([StError ''Error loading data for AAPL: timed out'',
           StWarning ''Could not load data. Please check the ticker symbol and date range.''], None)
   \<and> main (\<lambda>t s e. Returns \<lparr>index_name = Some ''Date'', index_values = [],
                              table_columns = [(''Close'', [])]\<rparr>) ''AAPL'' 0 730 True
       = ([StWarning ''Could not load data. Please check the ticker symbol and date range.''], None)"
  using no_data_gives_warning [of "\<lambda>t s e. Raises (Exception ''timed out'')" "''AAPL''" 0 730
      "Exception ''timed out''" True]
  by (simp add: main_def load_data_def empty_table_def)

subsection \<open>C9: bands with a window of one\<close>

text \<open>
  Claim C9. For every \<^verbatim>\<open>Close\<close> column and every multiplier, the bands computed with
  window 1 are undefined at every position, although the rolling mean with window 1 is
  the \<^verbatim>\<open>Close\<close> column itself: the sample standard deviation of one observation is
  undefined.
\<close>

theorem bollinger_window_one_undefined:
  assumes "map_of (\<sigma> data) ''Close'' = Some c"
  shows "\<exists>\<sigma>'. calculate_bollinger_bands data 1 k \<sigma> = (Inr data, \<sigma>')
          \<and> map_of (\<sigma>' data) ''Bollinger_High'' = Some (replicate (length c) None)
          \<and> map_of (\<sigma>' data) ''Bollinger_Low'' = Some (replicate (length c) None)
          \<and> close_rolling_mean (\<sigma> data) 1 = Inr c
          \<and> close_rolling_std (\<sigma> data) 1 = Inr (replicate (length c) None)"
proof -
  let ?r = "calculate_bollinger_bands data 1 k \<sigma>"
  have r: "?r = (Inr data, snd ?r)"
    using assms bollinger_result [of \<sigma> data c 1 k] by simp
  have "length (mean (Rolling c 1)) = length c"
    by simp
  then have hi: "series_add (mean (Rolling c 1)) (series_mul (std (Rolling c 1)) k)
            = replicate (length c) None"
    and lo: "series_sub (mean (Rolling c 1)) (series_mul (std (Rolling c 1)) k)
            = replicate (length c) None"
    by (simp_all add: std_window_one series_mul_None series_add_None series_sub_None
        del: mean.simps std.simps)
  have "map_of (snd ?r data) ''Bollinger_High'' = Some (replicate (length c) None)"
    and "map_of (snd ?r data) ''Bollinger_Low'' = Some (replicate (length c) None)"
    using assms bollinger_columns [of \<sigma> data c 1 k] hi lo by simp_all
  moreover have "close_rolling_mean (\<sigma> data) 1 = Inr c"
    using close_rolling_mean_eq [OF assms, of 1] by (simp add: mean_window_one del: mean.simps)
  moreover have "close_rolling_std (\<sigma> data) 1 = Inr (replicate (length c) None)"
    using close_rolling_std_eq [OF assms, of 1] by (simp add: std_window_one del: std.simps)
  ultimately show ?thesis
    using r by blast
qed

theorem bollinger_window_one_undefined_witness:
  "map_of (store_of [(''Close'', [Some 5, Some 6, Some 7])] 0) ''Close'' = Some [Some 5, Some 6, Some 7]
   \<and> (\<exists>\<sigma>'. calculate_bollinger_bands 0 1 2 (store_of [(''Close'', [Some 5, Some 6, Some 7])]) = (Inr 0, \<sigma>')
          \<and> map_of (\<sigma>' 0) ''Bollinger_High'' = Some [None, None, None]
          \<and> map_of (\<sigma>' 0) ''Bollinger_Low'' = Some [None, None, None]
          \<and> close_rolling_mean (store_of [(''Close'', [Some 5, Some 6, Some 7])] 0) 1
               = Inr [Some 5, Some 6, Some 7]
          \<and> close_rolling_std (store_of [(''Close'', [Some 5, Some 6, Some 7])] 0) 1
               = Inr [None, None, None])"
  using bollinger_window_one_undefined [of "store_of [(''Close'', [Some 5, Some 6, Some 7])]" 0
      "[Some 5, Some 6, Some 7]" 2]
  by (simp add: store_of_def numeral_3_eq_3)

subsection \<open>C10: the other columns\<close>

text \<open>
  Claim C10 says that every column present before a call is unchanged after it. A column
  that bears the name of a derived column is overwritten: a frame that already has a
  column \<^verbatim>\<open>Bollinger_High\<close> loses its values to \<^verbatim>\<open>calculate_bollinger_bands\<close>.
\<close>

theorem preexisting_column_counterexample:
  "map_of (store_of [(''Close'', [Some 1]), (''Bollinger_High'', [Some 7])] 0) ''Bollinger_High''
     = Some [Some 7]
   \<and> map_of (snd (calculate_bollinger_bands 0 20 2
         (store_of [(''Close'', [Some 1]), (''Bollinger_High'', [Some 7])])) 0) ''Bollinger_High''
     = Some [None]"
  using bollinger_columns(1) [of "store_of [(''Close'', [Some 1]), (''Bollinger_High'', [Some 7])]"
      0 "[Some 1]" 20 2]
  by (simp add: store_of_def mean_eval_1_20 std_eval_1_20 series_add_def series_mul_def
      del: mean.simps std.simps)

text \<open>
  Claim C10, amended. After a call of either function, whatever its outcome, every
  column whose name is not one of the function's own derived names
  (\<^verbatim>\<open>SMA_<short>\<close> and \<^verbatim>\<open>SMA_<long>\<close>; \<^verbatim>\<open>Bollinger_High\<close> and \<^verbatim>\<open>Bollinger_Low\<close>) is
  unchanged, among them \<^verbatim>\<open>Close\<close> and \<^verbatim>\<open>Date\<close>; no column is removed, and the only
  names that can be new are the derived ones.
\<close>

theorem other_columns_preserved:
  "(c \<noteq> sma_name s \<and> c \<noteq> sma_name l \<longrightarrow>
      map_of (snd (calculate_moving_averages d s l \<sigma>) d) c = map_of (\<sigma> d) c)
   \<and> (c \<noteq> ''Bollinger_High'' \<and> c \<noteq> ''Bollinger_Low'' \<longrightarrow>
      map_of (snd (calculate_bollinger_bands d w k \<sigma>) d) c = map_of (\<sigma> d) c)
   \<and> map_of (snd (calculate_moving_averages d s l \<sigma>) d) ''Close'' = map_of (\<sigma> d) ''Close''
   \<and> map_of (snd (calculate_moving_averages d s l \<sigma>) d) ''Date'' = map_of (\<sigma> d) ''Date''
   \<and> map_of (snd (calculate_bollinger_bands d w k \<sigma>) d) ''Close'' = map_of (\<sigma> d) ''Close''
   \<and> map_of (snd (calculate_bollinger_bands d w k \<sigma>) d) ''Date'' = map_of (\<sigma> d) ''Date''
   \<and> fst ` set (\<sigma> d) \<subseteq> fst ` set (snd (calculate_moving_averages d s l \<sigma>) d)
   \<and> fst ` set (snd (calculate_moving_averages d s l \<sigma>) d)
       \<subseteq> fst ` set (\<sigma> d) \<union> {sma_name s, sma_name l}
   \<and> fst ` set (\<sigma> d) \<subseteq> fst ` set (snd (calculate_bollinger_bands d w k \<sigma>) d)
   \<and> fst ` set (snd (calculate_bollinger_bands d w k \<sigma>) d)
       \<subseteq> fst ` set (\<sigma> d) \<union> {''Bollinger_High'', ''Bollinger_Low''}"
  using moving_averages_keys [of \<sigma> d s l] bollinger_keys [of \<sigma> d w k]
  by (simp add: moving_averages_other_columns bollinger_other_columns sma_name_neq_Date)

text \<open>A frame with dates and prices, and the default parameters.\<close>

theorem other_columns_preserved_witness:
  "(''Date'' \<noteq> sma_name 20 \<and> ''Date'' \<noteq> sma_name 50)
   \<and> (''Date'' \<noteq> ''Bollinger_High'' \<and> ''Date'' \<noteq> ''Bollinger_Low'')
   \<and> map_of (snd (calculate_moving_averages 0 20 50
         (store_of [(''Date'', [Some 1, Some 2]), (''Close'', [Some 5, Some 6])])) 0) ''Date''
       = Some [Some 1, Some 2]
   \<and> map_of (snd (calculate_bollinger_bands 0 20 2
         (store_of [(''Date'', [Some 1, Some 2]), (''Close'', [Some 5, Some 6])])) 0) ''Date''
       = Some [Some 1, Some 2]
   \<and> map_of (snd (calculate_moving_averages 0 20 50
         (store_of [(''Date'', [Some 1, Some 2]), (''Close'', [Some 5, Some 6])])) 0) ''Close''
       = Some [Some 5, Some 6]
   \<and> map_of (snd (calculate_bollinger_bands 0 20 2
         (store_of [(''Date'', [Some 1, Some 2]), (''Close'', [Some 5, Some 6])])) 0) ''Close''
       = Some [Some 5, Some 6]"
  using other_columns_preserved [of "''Date''" 20 50 0
      "store_of [(''Date'', [Some 1, Some 2]), (''Close'', [Some 5, Some 6])]" 20 2]
  by (simp add: store_of_def sma_name_neq_Date)

end
